theory Spec2Isabelle
  imports Complex_Main
begin

section \<open>The camera controller and its command server\<close>

text \<open>
  A shallow embedding of \<^verbatim>\<open>src/Python/rpicamera/controller.py\<close>: the class
  \<^verbatim>\<open>Controller\<close>, which guards every access to an optional camera, and the thread
  \<^verbatim>\<open>ZmqThread\<close>, whose \<^verbatim>\<open>run\<close> method reads one request at a time from a reply
  socket and dispatches it.  The module is Python 2 code (\<^verbatim>\<open>str\<close> is a byte string and is
  what the socket receives and sends), so strings are \<^typ>\<open>string\<close>.  Python floats are
  modelled by the number they denote, as \<^typ>\<open>real\<close>; rounding and the special values
  (infinities, not-a-number) are outside the model.  An exception is a value of
  \<open>error\<close>; an operation that can raise returns \<open>error + 'a\<close> together with the
  state it leaves behind, because whatever was done before the \<^verbatim>\<open>raise\<close> stays done.
\<close>

subsection \<open>Exceptions\<close>

datatype error =
    IndexError
  | ValueError
  | TypeError
  | NameError
  | AttributeError
  | OSError
  | IOError

subsection \<open>The camera\<close>

text \<open>
  Values that are only ever copied into the parameter file (\<^verbatim>\<open>sync_mode\<close>,
  \<^verbatim>\<open>wait_for_trigger\<close>, \<^verbatim>\<open>trigger_timeout\<close> of the class \<^verbatim>\<open>CameraGPIO\<close>) are carried
  as JSON values.
\<close>

datatype json =
    JNull
  | JBool bool
  | JInt int
  | JFloat real
  | JStr string
  | JList "json list"

text \<open>
  The attributes of the camera object that the controller reads or writes.  The attribute
  \<^verbatim>\<open>closed\<close> of the camera is named \<open>cam_closed\<close>, since the controller has an
  attribute \<^verbatim>\<open>closed\<close> of its own.
\<close>

record camera =
  framerate :: real
  resolution :: "int \<times> int"
  vflip :: bool
  hflip :: bool
  zoom :: "real list"
  awb_mode :: string
  awb_gains :: "real list"
  exposure_mode :: string
  shutter_speed :: int
  exposure_speed :: int
  brightness :: int
  sync_mode :: json
  wait_for_trigger :: json
  trigger_timeout :: json
  recording :: bool
  previewing :: bool
  cam_closed :: bool

subsection \<open>The controller object\<close>

record controller =
  data_path :: string
  closed :: bool
  camera :: "camera option"

text \<open>
  \<^verbatim>\<open>Controller.__init__\<close>: the argument \<open>made\<close> is what the constructor call
  \<^verbatim>\<open>CameraGPIO(**kwargs)\<close> did, an exception or a camera.  The handler
  \<^verbatim>\<open>except BaseException\<close> catches every exception.
\<close>

definition Controller_init :: "string \<Rightarrow> error + camera \<Rightarrow> controller" where
  "Controller_init dp made =
     (case made of
        Inr cam \<Rightarrow> \<lparr>data_path = dp, closed = False, camera = Some cam\<rparr>
      | Inl e \<Rightarrow> \<lparr>data_path = dp, closed = False, camera = None\<rparr>)"

subsection \<open>Property getters and setters\<close>

definition framerate_getter :: "controller \<Rightarrow> real option" where
  "framerate_getter c = (case camera c of Some cam \<Rightarrow> Some (framerate cam) | None \<Rightarrow> None)"

definition framerate_setter :: "real \<Rightarrow> controller \<Rightarrow> controller" where
  "framerate_setter fps c =
     (case camera c of
        Some cam \<Rightarrow>
          if \<not> recording cam then c\<lparr>camera := Some (cam\<lparr>framerate := fps\<rparr>)\<rparr> else c
      | None \<Rightarrow> c)"

definition resolution_getter :: "controller \<Rightarrow> (int \<times> int) option" where
  "resolution_getter c = (case camera c of Some cam \<Rightarrow> Some (resolution cam) | None \<Rightarrow> None)"

definition resolution_setter :: "int \<times> int \<Rightarrow> controller \<Rightarrow> controller" where
  "resolution_setter xy c =
     (case camera c of
        Some cam \<Rightarrow>
          if \<not> recording cam then c\<lparr>camera := Some (cam\<lparr>resolution := xy\<rparr>)\<rparr> else c
      | None \<Rightarrow> c)"

definition vflip_getter :: "controller \<Rightarrow> bool option" where
  "vflip_getter c = (case camera c of Some cam \<Rightarrow> Some (vflip cam) | None \<Rightarrow> None)"

definition vflip_setter :: "bool \<Rightarrow> controller \<Rightarrow> controller" where
  "vflip_setter status c =
     (case camera c of
        Some cam \<Rightarrow>
          if \<not> recording cam then c\<lparr>camera := Some (cam\<lparr>vflip := status\<rparr>)\<rparr> else c
      | None \<Rightarrow> c)"

definition hflip_getter :: "controller \<Rightarrow> bool option" where
  "hflip_getter c = (case camera c of Some cam \<Rightarrow> Some (hflip cam) | None \<Rightarrow> None)"

definition hflip_setter :: "bool \<Rightarrow> controller \<Rightarrow> controller" where
  "hflip_setter status c =
     (case camera c of
        Some cam \<Rightarrow>
          if \<not> recording cam then c\<lparr>camera := Some (cam\<lparr>hflip := status\<rparr>)\<rparr> else c
      | None \<Rightarrow> c)"

definition zoom_getter :: "controller \<Rightarrow> real list option" where
  "zoom_getter c = (case camera c of Some cam \<Rightarrow> Some (zoom cam) | None \<Rightarrow> None)"

text \<open>
  Python's \<^verbatim>\<open>min\<close> and \<^verbatim>\<open>max\<close> of a list: they raise \<^verbatim>\<open>ValueError\<close> on the empty
  list, and otherwise keep the first element until a strictly smaller (larger) one comes.
\<close>

definition py_min :: "real list \<Rightarrow> error + real" where
  "py_min xs =
     (case xs of
        [] \<Rightarrow> Inl ValueError
      | x # r \<Rightarrow> Inr (foldl (\<lambda>m y. if y < m then y else m) x r))"

definition py_max :: "real list \<Rightarrow> error + real" where
  "py_max xs =
     (case xs of
        [] \<Rightarrow> Inl ValueError
      | x # r \<Rightarrow> Inr (foldl (\<lambda>m y. if y > m then y else m) x r))"

text \<open>
  The zoom setter.  The condition
  \<^verbatim>\<open>len(coords) == 4 and min(coords) >= 0 and max(coords) <= 1\<close> is evaluated from left
  to right and stops at the first false conjunct.
\<close>

definition zoom_setter :: "real list \<Rightarrow> controller \<Rightarrow> error + controller" where
  "zoom_setter coords c =
     (case camera c of
        Some cam \<Rightarrow>
          if length coords = 4 then
            (case py_min coords of
               Inl e \<Rightarrow> Inl e
             | Inr lo \<Rightarrow>
                 if lo \<ge> 0 then
                   (case py_max coords of
                      Inl e \<Rightarrow> Inl e
                    | Inr hi \<Rightarrow>
                        if hi \<le> 1 then Inr (c\<lparr>camera := Some (cam\<lparr>zoom := coords\<rparr>)\<rparr>)
                        else Inr c)
                 else Inr c)
          else Inr c
      | None \<Rightarrow> Inr c)"

definition is_recording :: "controller \<Rightarrow> bool" where
  "is_recording c = (case camera c of Some cam \<Rightarrow> recording cam | None \<Rightarrow> False)"


definition get_gains :: "controller \<Rightarrow> real list option" where
  "get_gains c = (case camera c of Some cam \<Rightarrow> Some (awb_gains cam) | None \<Rightarrow> None)"

definition set_gains :: "real list \<Rightarrow> controller \<Rightarrow> controller" where
  "set_gains gains c =
     (case camera c of
        Some cam \<Rightarrow> c\<lparr>camera := Some (cam\<lparr>awb_mode := ''off'', awb_gains := gains\<rparr>)\<rparr>
      | None \<Rightarrow> c)"

subsection \<open>Strings and paths\<close>

text \<open>The pieces of a string between the characters that satisfy \<open>P\<close>, empty ones kept.\<close>

fun split_when :: "(char \<Rightarrow> bool) \<Rightarrow> string \<Rightarrow> string list" where
  "split_when P [] = [[]]"
| "split_when P (x # xs) =
     (if P x then [] # split_when P xs
      else (case split_when P xs of
              [] \<Rightarrow> [[x]]
            | r # rs \<Rightarrow> (x # r) # rs))"

text \<open>\<^verbatim>\<open>s.split(sep)\<close> for a separator of one character.\<close>

definition split_sep :: "char \<Rightarrow> string \<Rightarrow> string list" where
  "split_sep sep s = split_when (\<lambda>x. x = sep) s"

text \<open>
  \<^verbatim>\<open>s.split()\<close>: the maximal runs of characters that are not whitespace (space, tab,
  line feed, vertical tab, form feed, carriage return).
\<close>

definition is_space :: "char \<Rightarrow> bool" where
  "is_space x = (x \<in> set [CHR '' '', CHR 0x09, CHR 0x0A, CHR 0x0B, CHR 0x0C, CHR 0x0D])"

definition split_ws :: "string \<Rightarrow> string list" where
  "split_ws s = filter (\<lambda>t. t \<noteq> []) (split_when is_space s)"

text \<open>\<^verbatim>\<open>str\<close> of an integer, which is what \<^verbatim>\<open>'{}'.format\<close> puts for one.\<close>

fun nat_digits :: "nat \<Rightarrow> string" where
  "nat_digits n =
     (if n < 10 then [char_of (48 + n)]
      else nat_digits (n div 10) @ [char_of (48 + n mod 10)])"

declare nat_digits.simps [simp del]

definition str_int :: "int \<Rightarrow> string" where
  "str_int i = (if i < 0 then CHR ''-'' # nat_digits (nat (- i)) else nat_digits (nat i))"

text \<open>
  \<^verbatim>\<open>int(s)\<close> on a token without whitespace: an optional sign and at least one decimal
  digit; anything else raises \<^verbatim>\<open>ValueError\<close>, here \<open>None\<close>.
\<close>

definition is_digit :: "char \<Rightarrow> bool" where
  "is_digit x = (x \<in> set ''0123456789'')"

definition digits_value :: "string \<Rightarrow> int option" where
  "digits_value ds =
     (if ds \<noteq> [] \<and> list_all is_digit ds
      then Some (foldl (\<lambda>a x. 10 * a + (of_char x - 48)) 0 ds)
      else None)"

definition py_int :: "string \<Rightarrow> int option" where
  "py_int s =
     (if take 1 s = ''-'' then map_option uminus (digits_value (drop 1 s))
      else if take 1 s = ''+'' then digits_value (drop 1 s)
      else digits_value s)"

text \<open>\<^verbatim>\<open>os.path.join(a, b)\<close> of the module \<^verbatim>\<open>posixpath\<close>; \<^verbatim>\<open>os.path.sep\<close> is \<^verbatim>\<open>/\<close>.\<close>

definition op_sep :: char where
  "op_sep = CHR ''/''"

definition op_join :: "string \<Rightarrow> string \<Rightarrow> string" where
  "op_join a b =
     (if take 1 b = ''/'' then b
      else if a = [] \<or> last a = CHR ''/'' then a @ b
      else a @ ''/'' @ b)"

subsection \<open>The world around the controller\<close>

text \<open>
  What a client of the socket and an observer of the camera can see, in the order in which
  it happens: a reply sent, a pause of the thread, a call of a camera method.  The reply to
  \<^verbatim>\<open>GetGains\<close>, the text \<^verbatim>\<open>"{:.6f} {:.6f}".format(gains[0], gains[1])\<close>, is kept as
  the two numbers it prints.
\<close>

datatype reply = Text string | GainsText real real

datatype event =
    Sent reply
  | Sleep real
  | CamStartPreview
  | CamStopPreview
  | CamStartRecording string int
  | CamStopRecording
  | CamClose

text \<open>
  The file system: the directories made, the files written (the newest first; a parameter
  file holds the dictionary that \<^verbatim>\<open>json.dump\<close> is given), and the paths at which making
  a directory or opening a file for writing fails.
\<close>

record filesystem =
  dirs :: "string list"
  files :: "(string \<times> (string \<times> json) list) list"
  failing :: "string list"

definition op_exists :: "filesystem \<Rightarrow> string \<Rightarrow> bool" where
  "op_exists f p = (p \<in> set (dirs f) \<or> map_of (files f) p \<noteq> None)"

definition makedirs :: "string \<Rightarrow> filesystem \<Rightarrow> error + filesystem" where
  "makedirs p f = (if p \<in> set (failing f) then Inl OSError else Inr (f\<lparr>dirs := p # dirs f\<rparr>))"

definition open_write :: "string \<Rightarrow> (string \<times> json) list \<Rightarrow> filesystem \<Rightarrow> error + filesystem" where
  "open_write p content f =
     (if p \<in> set (failing f) then Inl IOError else Inr (f\<lparr>files := (p, content) # files f\<rparr>))"

text \<open>
  The state: the controller, the file system, the events so far, and the flag
  \<^verbatim>\<open>is_running\<close> of the server thread.  Output of \<^verbatim>\<open>print\<close> is not recorded.
\<close>

record world =
  ctrl :: controller
  fs :: filesystem
  trace :: "event list"
  is_running :: bool

definition log :: "event \<Rightarrow> world \<Rightarrow> world" where
  "log ev w = w\<lparr>trace := trace w @ [ev]\<rparr>"

definition on_ctrl :: "(controller \<Rightarrow> controller) \<Rightarrow> world \<Rightarrow> world" where
  "on_ctrl f w = w\<lparr>ctrl := f (ctrl w)\<rparr>"

definition on_camera :: "(camera \<Rightarrow> camera) \<Rightarrow> world \<Rightarrow> world" where
  "on_camera f w = on_ctrl (\<lambda>c. c\<lparr>camera := map_option f (camera c)\<rparr>) w"

definition cam_flag :: "(camera \<Rightarrow> bool) \<Rightarrow> world \<Rightarrow> bool" where
  "cam_flag f w = (case camera (ctrl w) of Some cam \<Rightarrow> f cam | None \<Rightarrow> False)"

text \<open>
  Modelled from the spec: the methods of the camera object (the class \<^verbatim>\<open>CameraGPIO\<close> of
  \<^verbatim>\<open>camera.py\<close> is not among the sources).  The spec lists them as the Device's
  \<^verbatim>\<open>startPreview\<close>, \<^verbatim>\<open>stopPreview\<close>, \<^verbatim>\<open>startRecording\<close>, \<^verbatim>\<open>stopRecording\<close>,
  \<^verbatim>\<open>close\<close> with the status flags \<^verbatim>\<open>previewing\<close>, \<^verbatim>\<open>recording\<close>, \<^verbatim>\<open>closed\<close>: a call
  is an event and sets its flag.
\<close>

definition cam_start_preview :: "world \<Rightarrow> world" where
  "cam_start_preview w = log CamStartPreview (on_camera (\<lambda>cam. cam\<lparr>previewing := True\<rparr>) w)"

definition cam_stop_preview :: "world \<Rightarrow> world" where
  "cam_stop_preview w = log CamStopPreview (on_camera (\<lambda>cam. cam\<lparr>previewing := False\<rparr>) w)"

definition cam_start_recording :: "string \<Rightarrow> int \<Rightarrow> world \<Rightarrow> world" where
  "cam_start_recording video_path quality w =
     log (CamStartRecording video_path quality) (on_camera (\<lambda>cam. cam\<lparr>recording := True\<rparr>) w)"

definition cam_stop_recording :: "world \<Rightarrow> world" where
  "cam_stop_recording w = log CamStopRecording (on_camera (\<lambda>cam. cam\<lparr>recording := False\<rparr>) w)"

definition cam_close :: "world \<Rightarrow> world" where
  "cam_close w = log CamClose (on_camera (\<lambda>cam. cam\<lparr>cam_closed := True\<rparr>) w)"

subsection \<open>Cleaning up\<close>

definition cleanup :: "world \<Rightarrow> world" where
  "cleanup w =
     (let w4 =
        (case camera (ctrl w) of
           Some cam \<Rightarrow>
             (let w1 = (if cam_flag recording w then cam_stop_recording w else w);
                  w2 = (if cam_flag previewing w1 then cam_stop_preview w1 else w1);
                  w3 = (if \<not> cam_flag cam_closed w2 then cam_close w2 else w2)
              in on_ctrl (\<lambda>c. c\<lparr>camera := None\<rparr>) w3)
         | None \<Rightarrow> w)
      in on_ctrl (\<lambda>c. c\<lparr>closed := True\<rparr>) w4)"

definition close :: "world \<Rightarrow> world" where
  "close w = cleanup w"


subsection \<open>Preview and gains\<close>

text \<open>
  The names a line of \<^verbatim>\<open>start_preview\<close> can refer to: the parameters and the local
  \<^verbatim>\<open>gains\<close> of the function and the names bound at module level (the imports and the two
  classes).  No builtin of Python is called \<^verbatim>\<open>kwargs\<close>.  Reading a name that is bound
  nowhere raises \<^verbatim>\<open>NameError\<close>.
\<close>

definition start_preview_locals :: "string list" where
  "start_preview_locals =
     [''self'', ''warmup_time'', ''awb_gains'', ''fix_awb_gains'', ''fix_exposure_speed'',
      ''gains'']"

definition module_globals :: "string list" where
  "module_globals =
     [''print_function'', ''os'', ''op'', ''time'', ''traceback'', ''json'', ''threading'',
      ''zmq'', ''CameraGPIO'', ''ZmqThread'', ''Controller'']"

definition name_bound :: "string list \<Rightarrow> string \<Rightarrow> bool" where
  "name_bound locals n = (n \<in> set locals \<or> n \<in> set module_globals)"

text \<open>
  \<^verbatim>\<open>start_preview\<close>.  The call \<^verbatim>\<open>self.camera.start_preview(**kwargs)\<close> evaluates its
  arguments before it calls the camera.
\<close>

definition start_preview ::
  "real \<Rightarrow> real list option \<Rightarrow> bool \<Rightarrow> bool \<Rightarrow> world \<Rightarrow> (error + unit) \<times> world" where
  "start_preview warmup_time gains_arg fix_awb_gains fix_exposure_speed w =
     (case camera (ctrl w) of
        Some cam0 \<Rightarrow>
          (let w1 =
             (case gains_arg of
                Some g \<Rightarrow> on_camera (\<lambda>cam. cam\<lparr>awb_mode := ''off'', awb_gains := g\<rparr>) w
              | None \<Rightarrow> on_camera (\<lambda>cam. cam\<lparr>awb_mode := ''auto''\<rparr>) w);
               w2 = on_camera (\<lambda>cam. cam\<lparr>exposure_mode := ''auto''\<rparr>) w1
           in if \<not> name_bound start_preview_locals ''kwargs'' then (Inl NameError, w2)
              else
                (let w3 = cam_start_preview w2;
                     w4 = log (Sleep warmup_time) w3;
                     w5 =
                       (if gains_arg = None \<and> fix_awb_gains
                        then on_camera (\<lambda>cam. cam\<lparr>awb_mode := ''off'', awb_gains := awb_gains cam\<rparr>) w4
                        else w4);
                     w6 =
                       (if fix_exposure_speed
                        then on_camera
                               (\<lambda>cam. cam\<lparr>shutter_speed := exposure_speed cam,
                                           exposure_mode := ''off''\<rparr>) w5
                        else w5)
                 in (Inr (), w6)))
      | None \<Rightarrow> (Inr (), w))"

text \<open>
  \<^verbatim>\<open>reset_gains(**kwargs)\<close>: the keyword arguments are the four that \<^verbatim>\<open>start_preview\<close>
  accepts, given here with its defaults filled in.
\<close>

definition reset_gains ::
  "real \<Rightarrow> real list option \<Rightarrow> bool \<Rightarrow> bool \<Rightarrow> world \<Rightarrow> (error + unit) \<times> world" where
  "reset_gains warmup_time gains_arg fix_awb_gains fix_exposure_speed w =
     (case camera (ctrl w) of
        Some cam0 \<Rightarrow>
          (let w1 = (if cam_flag recording w then cam_stop_recording w else w);
               was_previewing = cam_flag previewing w1;
               w2 = (if cam_flag previewing w1 then log (Sleep (1 / 10)) (cam_stop_preview w1)
                     else w1)
           in if was_previewing
              then start_preview warmup_time gains_arg fix_awb_gains fix_exposure_speed w2
              else (Inr (), w2))
      | None \<Rightarrow> (Inr (), w))"

subsection \<open>Recording\<close>

text \<open>
  \<^verbatim>\<open>start_recording\<close>.  The argument \<open>path_arg\<close> is \<open>None\<close> when the caller passes
  Python's \<^verbatim>\<open>None\<close>, which has no method \<^verbatim>\<open>split\<close>.  None of \<^verbatim>\<open>os.makedirs\<close>,
  \<^verbatim>\<open>open\<close> and \<^verbatim>\<open>json.dump\<close> is inside a \<^verbatim>\<open>try\<close>.
\<close>

definition start_recording ::
  "string \<Rightarrow> int \<Rightarrow> int \<Rightarrow> string option \<Rightarrow> int \<Rightarrow> world \<Rightarrow> (error + string option) \<times> world" where
  "start_recording filename experiment recno path_arg quality w =
     (case camera (ctrl w) of
        Some cam \<Rightarrow>
          if \<not> recording cam then
            (case path_arg of
               None \<Rightarrow> (Inl AttributeError, w)
             | Some path \<Rightarrow>
                 (let rec_datetime = last (split_sep op_sep path);
                      name = rec_datetime @ ''_experiment_'' @ str_int experiment
                               @ ''_recording_'' @ str_int recno;
                      rec_path = op_join (data_path (ctrl w)) name
                  in case (if \<not> op_exists (fs w) rec_path then makedirs rec_path (fs w)
                           else Inr (fs w)) of
                       Inl e \<Rightarrow> (Inl e, w)
                     | Inr fs1 \<Rightarrow>
                         (let file_base = op_join rec_path filename;
                              video_path = file_base @ ''.h264'';
                              param_file = file_base @ ''_params.json'';
                              params =
                                [(''rec_path'', JStr rec_path),
                                 (''experiment'', JInt experiment),
                                 (''recording'', JInt recno),
                                 (''video_path'', JStr video_path),
                                 (''width'', JInt (fst (resolution cam))),
                                 (''height'', JInt (snd (resolution cam))),
                                 (''framerate'', JFloat (framerate cam)),
                                 (''sync_mode'', sync_mode cam),
                                 (''wait_for_trigger'', wait_for_trigger cam),
                                 (''trigger_timeout'', trigger_timeout cam),
                                 (''awb_mode'', JStr (awb_mode cam)),
                                 (''awb_gains'', JList (map JFloat (awb_gains cam))),
                                 (''brightness'', JInt (brightness cam)),
                                 (''zoom'', JList (map JFloat (zoom cam))),
                                 (''vflip'', JBool (vflip cam)),
                                 (''hflip'', JBool (hflip cam))]
                          in case open_write param_file params fs1 of
                               Inl e \<Rightarrow> (Inl e, w\<lparr>fs := fs1\<rparr>)
                             | Inr fs2 \<Rightarrow>
                                 (Inr (Some rec_path),
                                  cam_start_recording video_path quality (w\<lparr>fs := fs2\<rparr>)))))
          else (Inr None, w)
      | None \<Rightarrow> (Inr None, w))"

definition stop_recording :: "world \<Rightarrow> world" where
  "stop_recording w = (if is_recording (ctrl w) then cam_stop_recording w else w)"


subsection \<open>The server thread\<close>

text \<open>
  The values that go through \<^verbatim>\<open>parameter_callback(name, value)\<close> and come back from it:
  \<^verbatim>\<open>None\<close>, the pair of a resolution, a float, a list of floats, a truth value.
\<close>

datatype pvalue =
    PNone
  | PSize int int
  | PFloat real
  | PFloats "real list"
  | PBool bool

text \<open>
  The callbacks that \<^verbatim>\<open>ZmqThread.__init__\<close> stores.  (\<^verbatim>\<open>stop_callback\<close> and
  \<^verbatim>\<open>close_callback\<close> are stored too, and \<^verbatim>\<open>run\<close> never calls them.)
\<close>

record callbacks =
  start_callback :: "int \<Rightarrow> int \<Rightarrow> string option \<Rightarrow> world \<Rightarrow> (error + string option) \<times> world"
  parameter_callback :: "string \<Rightarrow> pvalue \<Rightarrow> world \<Rightarrow> (error + pvalue) \<times> world"

definition stop_running :: "world \<Rightarrow> world" where
  "stop_running w = w\<lparr>is_running := False\<rparr>"

definition send :: "reply \<Rightarrow> world \<Rightarrow> world" where
  "send r w = log (Sent r) w"

text \<open>
  The loop over the tokens after \<^verbatim>\<open>Start\<close>:
  \<^verbatim>\<open>name, value = p.split('=')\<close> raises \<^verbatim>\<open>ValueError\<close> unless the token has exactly one
  equals sign, and so does \<^verbatim>\<open>int(value)\<close> on a value that is not an integer.  A token
  with another name is passed over.
\<close>

fun parse_start_args ::
  "string list \<Rightarrow> int \<times> int \<times> string option \<Rightarrow> error + (int \<times> int \<times> string option)" where
  "parse_start_args [] acc = Inr acc"
| "parse_start_args (p # ps) (experiment, recno, path) =
     (case split_sep (CHR ''='') p of
        [name, val] \<Rightarrow>
          if name = ''Experiment'' then
            (case py_int val of
               None \<Rightarrow> Inl ValueError
             | Some n \<Rightarrow> parse_start_args ps (n, recno, path))
          else if name = ''Recording'' then
            (case py_int val of
               None \<Rightarrow> Inl ValueError
             | Some n \<Rightarrow> parse_start_args ps (experiment, n, path))
          else if name = ''Path'' then parse_start_args ps (experiment, recno, Some val)
          else parse_start_args ps (experiment, recno, path)
      | _ \<Rightarrow> Inl ValueError)"

text \<open>\<^verbatim>\<open>parts[i]\<close>, \<^verbatim>\<open>int(parts[i])\<close> and \<^verbatim>\<open>float(parts[i])\<close>.\<close>

definition part :: "string list \<Rightarrow> nat \<Rightarrow> error + string" where
  "part parts i = (if i < length parts then Inr (parts ! i) else Inl IndexError)"

definition int_part :: "string list \<Rightarrow> nat \<Rightarrow> error + int" where
  "int_part parts i =
     (case part parts i of
        Inl e \<Rightarrow> Inl e
      | Inr s \<Rightarrow> (case py_int s of None \<Rightarrow> Inl ValueError | Some n \<Rightarrow> Inr n))"

definition float_part :: "(string \<Rightarrow> real option) \<Rightarrow> string list \<Rightarrow> nat \<Rightarrow> error + real" where
  "float_part to_float parts i =
     (case part parts i of
        Inl e \<Rightarrow> Inl e
      | Inr s \<Rightarrow> (case to_float s of None \<Rightarrow> Inl ValueError | Some x \<Rightarrow> Inr x))"

text \<open>\<^verbatim>\<open>[float(p) for p in ps]\<close>\<close>

fun floats :: "(string \<Rightarrow> real option) \<Rightarrow> string list \<Rightarrow> error + real list" where
  "floats to_float [] = Inr []"
| "floats to_float (p # ps) =
     (case to_float p of
        None \<Rightarrow> Inl ValueError
      | Some x \<Rightarrow> (case floats to_float ps of Inl e \<Rightarrow> Inl e | Inr xs \<Rightarrow> Inr (x # xs)))"

text \<open>
  A branch that calls \<^verbatim>\<open>parameter_callback\<close> and then sends a fixed text: an exception
  in the callback leaves the branch before the \<^verbatim>\<open>send\<close>.  The truth value says whether
  the loop goes on (\<open>False\<close> after \<^verbatim>\<open>break\<close>).
\<close>

definition call_then_send ::
  "callbacks \<Rightarrow> string \<Rightarrow> pvalue \<Rightarrow> string \<Rightarrow> bool \<Rightarrow> world \<Rightarrow> (error + bool) \<times> world" where
  "call_then_send cb name val text go_on w =
     (case parameter_callback cb name val w of
        (Inl e, w') \<Rightarrow> (Inl e, w')
      | (Inr r, w') \<Rightarrow> (Inr go_on, send (Text text) w'))"

text \<open>
  One turn of the loop of \<^verbatim>\<open>run\<close> on the message received.  \<open>to_float\<close> is Python's
  \<^verbatim>\<open>float\<close> on strings, \<open>None\<close> where it raises \<^verbatim>\<open>ValueError\<close>.
\<close>

definition handle_request ::
  "(string \<Rightarrow> real option) \<Rightarrow> callbacks \<Rightarrow> string \<Rightarrow> world \<Rightarrow> (error + bool) \<times> world" where
  "handle_request to_float cb msg w =
     (let parts = split_ws msg in
      case part parts 0 of
        Inl e \<Rightarrow> (Inl e, w)
      | Inr cmd \<Rightarrow>
          if cmd = ''Start'' then
            (case parse_start_args (drop 1 parts) (0, 1, None) of
               Inl e \<Rightarrow> (Inl e, w)
             | Inr (experiment, recno, path) \<Rightarrow>
                 (case start_callback cb experiment recno path w of
                    (Inl e, w') \<Rightarrow> (Inl e, w')
                  | (Inr rec_path, w') \<Rightarrow>
                      (Inr True,
                       send (Text (case rec_path of None \<Rightarrow> [] | Some s \<Rightarrow> s)) w')))
          else if cmd = ''Stop'' then call_then_send cb ''Stop'' PNone ''Stopped'' True w
          else if cmd = ''Close'' then call_then_send cb ''Close'' PNone ''Closing'' False w
          else if cmd = ''Resolution'' then
            (case int_part parts 1 of
               Inl e \<Rightarrow> (Inl e, w)
             | Inr width \<Rightarrow>
                 (case int_part parts 2 of
                    Inl e \<Rightarrow> (Inl e, w)
                  | Inr height \<Rightarrow>
                      call_then_send cb ''Resolution'' (PSize width height) ''Done'' True w))
          else if cmd = ''Framerate'' then
            (case float_part to_float parts 1 of
               Inl e \<Rightarrow> (Inl e, w)
             | Inr fps \<Rightarrow> call_then_send cb ''Framerate'' (PFloat fps) ''Done'' True w)
          else if cmd = ''ResetGains'' then
            (case parameter_callback cb ''ResetGains'' PNone
                    (send (Text ''Done (but wait at least 2 seconds)'') w) of
               (Inl e, w') \<Rightarrow> (Inl e, w')
             | (Inr r, w') \<Rightarrow> (Inr True, w'))
          else if cmd = ''GetGains'' then
            (case parameter_callback cb ''GetGains'' PNone w of
               (Inl e, w') \<Rightarrow> (Inl e, w')
             | (Inr gains, w') \<Rightarrow>
                 (case gains of
                    PFloats gs \<Rightarrow>
                      if 2 \<le> length gs then (Inr True, send (GainsText (gs ! 0) (gs ! 1)) w')
                      else (Inl IndexError, w')
                  | PSize a b \<Rightarrow> (Inr True, send (GainsText (real_of_int a) (real_of_int b)) w')
                  | _ \<Rightarrow> (Inl TypeError, w')))
          else if cmd = ''SetGains'' then
            (case float_part to_float parts 1 of
               Inl e \<Rightarrow> (Inl e, w)
             | Inr red \<Rightarrow>
                 (case float_part to_float parts 2 of
                    Inl e \<Rightarrow> (Inl e, w)
                  | Inr blue \<Rightarrow>
                      call_then_send cb ''SetGains'' (PFloats [red, blue]) ''Done'' True w))
          else if cmd = ''VFlip'' then
            (case int_part parts 1 of
               Inl e \<Rightarrow> (Inl e, w)
             | Inr n \<Rightarrow> call_then_send cb ''VFlip'' (PBool (n > 0)) ''Done'' True w)
          else if cmd = ''HFlip'' then
            (case int_part parts 1 of
               Inl e \<Rightarrow> (Inl e, w)
             | Inr n \<Rightarrow> call_then_send cb ''HFlip'' (PBool (n > 0)) ''Done'' True w)
          else if cmd = ''Zoom'' then
            (case floats to_float (drop 1 parts) of
               Inl e \<Rightarrow> (Inl e, w)
             | Inr coords \<Rightarrow> call_then_send cb ''Zoom'' (PFloats coords) ''Done'' True w)
          else (Inr True, send (Text ''Not handled'') w))"

text \<open>
  How \<^verbatim>\<open>run\<close> ends on the requests that arrive: the flag was cleared, the loop is left
  by \<^verbatim>\<open>break\<close> after \<^verbatim>\<open>Close\<close>, an exception ends the thread, or every request
  has been served and \<^verbatim>\<open>socket.recv()\<close> waits for the next.
\<close>

datatype ending = Stopped | Finished | Died error | Waiting

fun serve ::
  "(string \<Rightarrow> real option) \<Rightarrow> callbacks \<Rightarrow> string list \<Rightarrow> world \<Rightarrow> ending \<times> world" where
  "serve to_float cb [] w = (if \<not> is_running w then (Stopped, w) else (Waiting, w))"
| "serve to_float cb (msg # msgs) w =
     (if \<not> is_running w then (Stopped, w)
      else (case handle_request to_float cb msg w of
              (Inl e, w') \<Rightarrow> (Died e, w')
            | (Inr go_on, w') \<Rightarrow>
                if go_on then serve to_float cb msgs w' else (Finished, w')))"

definition run ::
  "(string \<Rightarrow> real option) \<Rightarrow> callbacks \<Rightarrow> string list \<Rightarrow> world \<Rightarrow> ending \<times> world" where
  "run to_float cb msgs w = serve to_float cb msgs (w\<lparr>is_running := True\<rparr>)"

text \<open>
  Modelled from the spec: the callbacks handed to the server thread (the script that
  creates the \<^verbatim>\<open>Controller\<close> and the \<^verbatim>\<open>ZmqThread\<close> is not among the sources).  The spec
  has the server translate each wire command into the Controller operation of that name:
  \<^verbatim>\<open>Start\<close> into \<^verbatim>\<open>start_recording\<close> with the experiment, recording and path of the
  request and the default file name and quality, \<^verbatim>\<open>Stop\<close> into \<^verbatim>\<open>stop_recording\<close>,
  \<^verbatim>\<open>Close\<close> into \<^verbatim>\<open>close\<close>, the parameter commands into the setters,
  \<^verbatim>\<open>ResetGains\<close>, \<^verbatim>\<open>GetGains\<close> and \<^verbatim>\<open>SetGains\<close> into the methods of those names.
  The four arguments are the preview parameters that \<^verbatim>\<open>reset_gains\<close> is called with.
\<close>

definition controller_callbacks ::
  "real \<Rightarrow> real list option \<Rightarrow> bool \<Rightarrow> bool \<Rightarrow> callbacks" where
  "controller_callbacks warmup_time gains_arg fix_awb_gains fix_exposure_speed =
     \<lparr>start_callback =
        (\<lambda>experiment recno path w.
           start_recording ''rpicamera_video'' experiment recno path 25 w),
      parameter_callback =
        (\<lambda>name val w.
           if name = ''Stop'' then (Inr PNone, stop_recording w)
           else if name = ''Close'' then (Inr PNone, close w)
           else if name = ''Resolution'' then
             (case val of
                PSize width height \<Rightarrow> (Inr PNone, on_ctrl (resolution_setter (width, height)) w)
              | _ \<Rightarrow> (Inl TypeError, w))
           else if name = ''Framerate'' then
             (case val of
                PFloat fps \<Rightarrow> (Inr PNone, on_ctrl (framerate_setter fps) w)
              | _ \<Rightarrow> (Inl TypeError, w))
           else if name = ''ResetGains'' then
             (case reset_gains warmup_time gains_arg fix_awb_gains fix_exposure_speed w of
                (Inl e, w') \<Rightarrow> (Inl e, w')
              | (Inr u, w') \<Rightarrow> (Inr PNone, w'))
           else if name = ''GetGains'' then
             (case get_gains (ctrl w) of
                None \<Rightarrow> (Inr PNone, w)
              | Some gs \<Rightarrow> (Inr (PFloats gs), w))
           else if name = ''SetGains'' then
             (case val of
                PFloats gs \<Rightarrow> (Inr PNone, on_ctrl (set_gains gs) w)
              | _ \<Rightarrow> (Inl TypeError, w))
           else if name = ''VFlip'' then
             (case val of
                PBool b \<Rightarrow> (Inr PNone, on_ctrl (vflip_setter b) w)
              | _ \<Rightarrow> (Inl TypeError, w))
           else if name = ''HFlip'' then
             (case val of
                PBool b \<Rightarrow> (Inr PNone, on_ctrl (hflip_setter b) w)
              | _ \<Rightarrow> (Inl TypeError, w))
           else if name = ''Zoom'' then
             (case val of
                PFloats coords \<Rightarrow>
                  (case zoom_setter coords (ctrl w) of
                     Inl e \<Rightarrow> (Inl e, w)
                   | Inr c \<Rightarrow> (Inr PNone, w\<lparr>ctrl := c\<rparr>))
              | _ \<Rightarrow> (Inl TypeError, w))
           else (Inr PNone, w))\<rparr>"

text \<open>The replies among the events, in the order sent.\<close>

fun replies :: "event list \<Rightarrow> reply list" where
  "replies [] = []"
| "replies (Sent r # evs) = r # replies evs"
| "replies (ev # evs) = replies evs"


subsection \<open>Example states\<close>

text \<open>
  A camera that is idle, a controller on it with the base path \<^verbatim>\<open>/rec\<close>, and a
  \<^verbatim>\<open>float\<close> that reads integer literals only (which Python's \<^verbatim>\<open>float\<close> reads to the
  same number), for evaluating the definitions on concrete requests.
\<close>

definition idle_camera :: camera where
  "idle_camera =
     \<lparr>framerate = 30, resolution = (640, 480), vflip = False, hflip = False,
      zoom = [0, 0, 1, 1], awb_mode = ''auto'', awb_gains = [3 / 2, 5 / 4],
      exposure_mode = ''auto'', shutter_speed = 0, exposure_speed = 20000, brightness = 50,
      sync_mode = JBool False, wait_for_trigger = JBool False, trigger_timeout = JInt 0,
      recording = False, previewing = False, cam_closed = False\<rparr>"

definition empty_fs :: filesystem where
  "empty_fs = \<lparr>dirs = [], files = [], failing = []\<rparr>"

definition world_of :: "camera option \<Rightarrow> filesystem \<Rightarrow> world" where
  "world_of cam f =
     \<lparr>ctrl = \<lparr>data_path = ''/rec'', closed = False, camera = cam\<rparr>,
      fs = f, trace = [], is_running = True\<rparr>"

definition idle_world :: world where
  "idle_world = world_of (Some idle_camera) empty_fs"

definition recording_world :: world where
  "recording_world = world_of (Some (idle_camera\<lparr>recording := True\<rparr>)) empty_fs"

definition previewing_world :: world where
  "previewing_world = world_of (Some (idle_camera\<lparr>previewing := True\<rparr>)) empty_fs"

definition readonly_world :: world where
  "readonly_world =
     world_of (Some idle_camera) (empty_fs\<lparr>failing := [''/rec/x_experiment_0_recording_1'']\<rparr>)"

definition int_literal_float :: "string \<Rightarrow> real option" where
  "int_literal_float s = map_option real_of_int (py_int s)"

definition default_callbacks :: callbacks where
  "default_callbacks = controller_callbacks 2 None True True"


section \<open>Properties\<close>

subsection \<open>Auxiliary facts\<close>



lemma replies_append: "replies (xs @ ys) = replies xs @ replies ys"
  by (induction xs rule: replies.induct) simp_all

lemma nat_digits_last: "nat_digits n \<noteq> [] \<and> last (nat_digits n) \<noteq> CHR ''/''"
proof -
  have d: "char_of (48 + k) \<noteq> CHR ''/''" if "k < 10" for k :: nat
  proof
    assume "char_of (48 + k) = CHR ''/''"
    then have "(of_char (char_of (48 + k)) :: nat) = of_char CHR ''/''" by simp
    with that show False by simp
  qed
  show ?thesis
    by (subst (1 2) nat_digits.simps) (simp add: d)
qed

lemma str_int_last: "str_int i \<noteq> [] \<and> last (str_int i) \<noteq> CHR ''/''"
  by (simp add: str_int_def nat_digits_last)

lemma op_join_under:
  assumes "b \<noteq> []" "last b \<noteq> CHR ''/''" "take 1 fn \<noteq> ''/''"
  shows "op_join (op_join a (x @ b)) fn = op_join a (x @ b) @ ''/'' @ fn"
  using assms by (auto simp: op_join_def)

lemma parse_start_args_no_path:
  "parse_start_args args (ex0, rn0, p0) = Inr (ex, rn, p) \<Longrightarrow>
   \<forall>a\<in>set args. \<forall>v. split_sep (CHR ''='') a \<noteq> [''Path'', v] \<Longrightarrow> p = p0"
proof (induction args arbitrary: ex0 rn0)
  case Nil
  then show ?case by simp
next
  case (Cons a args)
  then show ?case
    by (auto split: list.splits if_splits option.splits)
qed

lemma split_ws_start_example:
  "split_ws ''Start Experiment=2 Recording=3 Path=/data/20240101_1200'' =
     [''Start'', ''Experiment=2'', ''Recording=3'', ''Path=/data/20240101_1200'']"
  by code_simp

lemma parse_start_args_example:
  "parse_start_args [''Experiment=2'', ''Recording=3'', ''Path=/data/20240101_1200''] (0, 1, None) =
     Inr (2, 3, Some ''/data/20240101_1200'')"
  by code_simp

lemma split_ws_start_no_path_example:
  "split_ws ''Start Experiment=2 Recording=3'' = [''Start'', ''Experiment=2'', ''Recording=3'']"
  by code_simp

lemma parse_start_args_no_path_example:
  "parse_start_args [''Experiment=2'', ''Recording=3''] (0, 1, None) = Inr (2, 3, None)"
  by code_simp

lemma trace_on_ctrl: "trace (on_ctrl f w) = trace w"
  by (simp add: on_ctrl_def)

lemma trace_on_camera: "trace (on_camera f w) = trace w"
  by (simp add: on_camera_def on_ctrl_def)

lemma replies_log: "replies (trace (log ev w)) = replies (trace w) @ replies [ev]"
  by (simp add: log_def replies_append)

lemma replies_stop_recording: "replies (trace (stop_recording w)) = replies (trace w)"
  by (simp add: stop_recording_def cam_stop_recording_def replies_log trace_on_camera)

lemma replies_cleanup: "replies (trace (cleanup w)) = replies (trace w)"
  by (simp add: cleanup_def Let_def cam_stop_recording_def cam_stop_preview_def cam_close_def
      replies_log trace_on_camera trace_on_ctrl split: option.splits)

lemma replies_start_preview:
  "replies (trace (snd (start_preview t g fa fe w))) = replies (trace w)"
  by (simp add: start_preview_def Let_def cam_start_preview_def replies_log trace_on_camera
      split: option.splits)

lemma replies_reset_gains:
  "replies (trace (snd (reset_gains t g fa fe w))) = replies (trace w)"
  by (simp add: reset_gains_def Let_def replies_start_preview cam_stop_recording_def
      cam_stop_preview_def replies_log trace_on_camera split: option.splits)

lemma replies_start_recording:
  "replies (trace (snd (start_recording fn ex rn p q w))) = replies (trace w)"
  by (simp add: start_recording_def Let_def cam_start_recording_def replies_log trace_on_camera
      split: option.splits sum.splits)


lemma replies_parameter_callback:
  "replies (trace (snd (parameter_callback (controller_callbacks t g fa fe) name v w))) =
     replies (trace w)"
proof -
  consider "name = ''Stop''" | "name = ''Close''" | "name = ''Resolution''"
    | "name = ''Framerate''" | "name = ''ResetGains''" | "name = ''GetGains''"
    | "name = ''SetGains''" | "name = ''VFlip''" | "name = ''HFlip''" | "name = ''Zoom''"
    | "name \<notin> {''Stop'', ''Close'', ''Resolution'', ''Framerate'', ''ResetGains'',
         ''GetGains'', ''SetGains'', ''VFlip'', ''HFlip'', ''Zoom''}"
    by (simp only: insert_iff empty_iff) argo
  then show ?thesis
  proof cases
    case 1
    then show ?thesis
      by (simp add: controller_callbacks_def replies_stop_recording)
  next
    case 2
    then show ?thesis
      by (simp add: controller_callbacks_def replies_cleanup close_def)
  next
    case 3
    then show ?thesis
      by (simp add: controller_callbacks_def trace_on_ctrl split: pvalue.splits)
  next
    case 4
    then show ?thesis
      by (simp add: controller_callbacks_def trace_on_ctrl split: pvalue.splits)
  next
    case 5
    then show ?thesis
      using replies_reset_gains [of t g fa fe w]
      by (auto simp: controller_callbacks_def split: prod.splits sum.splits)
  next
    case 6
    then show ?thesis
      by (simp add: controller_callbacks_def split: option.splits)
  next
    case 7
    then show ?thesis
      by (simp add: controller_callbacks_def trace_on_ctrl split: pvalue.splits)
  next
    case 8
    then show ?thesis
      by (simp add: controller_callbacks_def trace_on_ctrl split: pvalue.splits)
  next
    case 9
    then show ?thesis
      by (simp add: controller_callbacks_def trace_on_ctrl split: pvalue.splits)
  next
    case 10
    then show ?thesis
      by (simp add: controller_callbacks_def split: pvalue.splits sum.splits)
  next
    case 11
    then show ?thesis
      by (simp add: controller_callbacks_def)
  qed
qed


lemma replies_start_callback:
  "replies (trace (snd (start_callback (controller_callbacks t g fa fe) ex rn p w))) =
     replies (trace w)"
  by (simp add: controller_callbacks_def replies_start_recording)

lemma call_then_send_replies:
  assumes "call_then_send (controller_callbacks t g fa fe) name v text go w = (res, w')"
  shows "case res of
      Inr go_on \<Rightarrow> go_on = go \<and> replies (trace w') = replies (trace w) @ [Text text]
    | Inl e \<Rightarrow> replies (trace w') = replies (trace w)"
proof (cases "parameter_callback (controller_callbacks t g fa fe) name v w")
  case (Pair r w1)
  with replies_parameter_callback [of t g fa fe name v w]
  have "replies (trace w1) = replies (trace w)" by simp
  with Pair assms show ?thesis
    by (cases r) (auto simp: call_then_send_def send_def replies_log)
qed


lemma handle_request_replies:
  assumes "handle_request to_float (controller_callbacks t g fa fe) msg w = (res, w')"
  shows "case res of
      Inr go_on \<Rightarrow> (\<exists>r. replies (trace w') = replies (trace w) @ [r])
    | Inl e \<Rightarrow>
        replies (trace w') =
          replies (trace w) @
            (if take 1 (split_ws msg) = [''ResetGains'']
             then [Text ''Done (but wait at least 2 seconds)''] else [])"
proof (cases "split_ws msg")
  case Nil
  with assms show ?thesis
    by (auto simp: handle_request_def part_def Let_def)
next
  case (Cons cmd args)
  let ?cb = "controller_callbacks t g fa fe"
  consider "cmd = ''Start''" | "cmd = ''Stop''" | "cmd = ''Close''" | "cmd = ''Resolution''"
    | "cmd = ''Framerate''" | "cmd = ''ResetGains''" | "cmd = ''GetGains''"
    | "cmd = ''SetGains''" | "cmd = ''VFlip''" | "cmd = ''HFlip''" | "cmd = ''Zoom''"
    | "cmd \<notin> {''Start'', ''Stop'', ''Close'', ''Resolution'', ''Framerate'', ''ResetGains'',
         ''GetGains'', ''SetGains'', ''VFlip'', ''HFlip'', ''Zoom''}"
    by (simp only: insert_iff empty_iff) argo
  then show ?thesis
  proof cases
    case 1
    show ?thesis
    proof (cases "parse_start_args args (0, 1, None)")
      case (Inl e)
      with assms Cons 1 show ?thesis
        by (auto simp: handle_request_def part_def Let_def)
    next
      case (Inr a)
      obtain ex rn p where a: "a = (ex, rn, p)" by (cases a) auto
      obtain r w1 where sc: "start_callback ?cb ex rn p w = (r, w1)"
        by (cases "start_callback ?cb ex rn p w") auto
      with replies_start_callback [of t g fa fe ex rn p w]
      have "replies (trace w1) = replies (trace w)" by simp
      with assms Cons 1 Inr a sc show ?thesis
        by (cases r) (auto simp: handle_request_def part_def Let_def send_def replies_log)
    qed
  next
    case 2
    with assms Cons show ?thesis
      by (auto simp: handle_request_def part_def Let_def split: sum.splits
          dest!: call_then_send_replies)
  next
    case 3
    with assms Cons show ?thesis
      by (auto simp: handle_request_def part_def Let_def split: sum.splits
          dest!: call_then_send_replies)
  next
    case 4
    with assms Cons show ?thesis
      by (auto simp: handle_request_def part_def Let_def split: sum.splits
          dest!: call_then_send_replies)
  next
    case 5
    with assms Cons show ?thesis
      by (auto simp: handle_request_def part_def Let_def split: sum.splits
          dest!: call_then_send_replies)
  next
    case 6
    let ?w0 = "send (Text ''Done (but wait at least 2 seconds)'') w"
    obtain r w1 where pc: "parameter_callback ?cb ''ResetGains'' PNone ?w0 = (r, w1)"
      by (cases "parameter_callback ?cb ''ResetGains'' PNone ?w0") auto
    with replies_parameter_callback [of t g fa fe "''ResetGains''" PNone ?w0]
    have "replies (trace w1) = replies (trace w) @ [Text ''Done (but wait at least 2 seconds)'']"
      by (simp add: send_def replies_log)
    with assms Cons 6 pc show ?thesis
      by (cases r) (auto simp: handle_request_def part_def Let_def)
  next
    case 7
    obtain r w1 where pc: "parameter_callback ?cb ''GetGains'' PNone w = (r, w1)"
      by (cases "parameter_callback ?cb ''GetGains'' PNone w") auto
    with replies_parameter_callback [of t g fa fe "''GetGains''" PNone w]
    have "replies (trace w1) = replies (trace w)" by simp
    with assms Cons 7 pc show ?thesis
      by (cases r)
        (auto simp: handle_request_def part_def Let_def send_def replies_log
          split: pvalue.splits if_splits)
  next
    case 8
    with assms Cons show ?thesis
      by (auto simp: handle_request_def part_def Let_def split: sum.splits
          dest!: call_then_send_replies)
  next
    case 9
    with assms Cons show ?thesis
      by (auto simp: handle_request_def part_def Let_def split: sum.splits
          dest!: call_then_send_replies)
  next
    case 10
    with assms Cons show ?thesis
      by (auto simp: handle_request_def part_def Let_def split: sum.splits
          dest!: call_then_send_replies)
  next
    case 11
    with assms Cons show ?thesis
      by (auto simp: handle_request_def part_def Let_def split: sum.splits
          dest!: call_then_send_replies)
  next
    case 12
    with assms Cons show ?thesis
      by (auto simp: handle_request_def part_def Let_def send_def replies_log)
  qed
qed

lemma handle_resolution_example:
  "fst (handle_request int_literal_float default_callbacks ''Resolution 640 480'' idle_world) =
     Inr True"
  by code_simp

lemma handle_short_resolution_example:
  "handle_request int_literal_float default_callbacks ''Resolution 640'' idle_world =
     (Inl IndexError, idle_world)"
  by code_simp

lemma start_recording_example:
  "fst (start_recording ''rpicamera_video'' 2 3 (Some ''/data/20240101_1200'') 25 idle_world) =
     Inr (Some ''/rec/20240101_1200_experiment_2_recording_3'')"
  by code_simp

subsection \<open>Setters\<close>

text \<open>
  Claim C3.  In every state in which recording is active, each of the setters of
  framerate, resolution, vflip and hflip leaves the controller, and with it every field of
  the camera, as it was.
\<close>

theorem setters_ignored_while_recording:
  "is_recording c \<Longrightarrow>
   framerate_setter fps c = c \<and> resolution_setter xy c = c \<and>
   vflip_setter v c = c \<and> hflip_setter h c = c"
  by (auto simp: is_recording_def framerate_setter_def resolution_setter_def
        vflip_setter_def hflip_setter_def split: option.splits)

theorem setters_ignored_while_recording_witness:
  "is_recording (ctrl recording_world) \<and>
   framerate_setter 60 (ctrl recording_world) = ctrl recording_world \<and>
   resolution_setter (1280, 720) (ctrl recording_world) = ctrl recording_world \<and>
   vflip_setter True (ctrl recording_world) = ctrl recording_world \<and>
   hflip_setter True (ctrl recording_world) = ctrl recording_world"
proof -
  have rec: "is_recording (ctrl recording_world)"
    by (simp add: is_recording_def recording_world_def world_of_def)
  from setters_ignored_while_recording [OF rec, of 60 "(1280, 720)" True True] rec
  show ?thesis by simp
qed



subsection \<open>A controller without a camera\<close>

text \<open>
  Claim C5.  When the construction of the camera fails, the initializer returns a
  controller whose camera is absent, and on that controller no operation raises: every
  getter and \<^verbatim>\<open>get_gains\<close> return the absent value, every setter, \<^verbatim>\<open>set_gains\<close>,
  \<^verbatim>\<open>start_preview\<close>, \<^verbatim>\<open>reset_gains\<close> and \<^verbatim>\<open>stop_recording\<close> change nothing,
  \<^verbatim>\<open>start_recording\<close> returns the absent value and changes nothing, and \<^verbatim>\<open>cleanup\<close>
  and \<^verbatim>\<open>close\<close> only set the controller's flag \<^verbatim>\<open>closed\<close>.
\<close>

theorem absent_camera_operations_do_nothing:
  "camera (Controller_init dp (Inl e)) = None \<and>
   (let c = Controller_init dp (Inl e); w0 = w\<lparr>ctrl := c\<rparr> in
      framerate_getter c = None \<and> resolution_getter c = None \<and> vflip_getter c = None \<and>
      hflip_getter c = None \<and> zoom_getter c = None \<and> \<not> is_recording c \<and>
      framerate_setter fps c = c \<and> resolution_setter xy c = c \<and> vflip_setter v c = c \<and>
      hflip_setter h c = c \<and> zoom_setter coords c = Inr c \<and>
      start_preview t g fa fe w0 = (Inr (), w0) \<and>
      reset_gains t g fa fe w0 = (Inr (), w0) \<and>
      get_gains c = None \<and> set_gains gs c = c \<and>
      start_recording fn ex rn p q w0 = (Inr None, w0) \<and>
      stop_recording w0 = w0 \<and>
      cleanup w0 = w0\<lparr>ctrl := c\<lparr>closed := True\<rparr>\<rparr> \<and>
      close w0 = w0\<lparr>ctrl := c\<lparr>closed := True\<rparr>\<rparr>)"
  by (simp add: Controller_init_def Let_def framerate_getter_def resolution_getter_def
      vflip_getter_def hflip_getter_def zoom_getter_def is_recording_def framerate_setter_def
      resolution_setter_def vflip_setter_def hflip_setter_def zoom_setter_def start_preview_def
      reset_gains_def get_gains_def set_gains_def start_recording_def stop_recording_def
      cleanup_def close_def on_ctrl_def)

theorem absent_camera_operations_do_nothing_witness:
  "get_gains (Controller_init ''/rec'' (Inl OSError)) = None \<and>
   start_recording ''rpicamera_video'' 0 1 None 25
       (idle_world\<lparr>ctrl := Controller_init ''/rec'' (Inl OSError)\<rparr>) =
     (Inr None, idle_world\<lparr>ctrl := Controller_init ''/rec'' (Inl OSError)\<rparr>)"
  using absent_camera_operations_do_nothing
    [of "''/rec''" OSError idle_world _ _ _ _ _ _ _ _ _ _ "''rpicamera_video''" 0 1 None 25]
  by (simp add: Let_def)

subsection \<open>Preview\<close>

text \<open>
  Claim C9.  Whenever the camera is present, \<^verbatim>\<open>start_preview\<close> raises \<^verbatim>\<open>NameError\<close>,
  and it does so before the preview is started: no camera call is made and the flag
  \<^verbatim>\<open>previewing\<close> is as before.  Hence \<^verbatim>\<open>reset_gains\<close> raises too whenever the preview
  was active, which is when it calls \<^verbatim>\<open>start_preview\<close> to restore it.
\<close>

theorem start_preview_raises_NameError:
  "camera (ctrl w) = Some cam \<Longrightarrow>
   fst (start_preview t g fa fe w) = Inl NameError \<and>
   trace (snd (start_preview t g fa fe w)) = trace w \<and>
   cam_flag previewing (snd (start_preview t g fa fe w)) = previewing cam \<and>
   (previewing cam \<longrightarrow> fst (reset_gains t g fa fe w) = Inl NameError)"
  by (auto simp: start_preview_def reset_gains_def name_bound_def start_preview_locals_def
      module_globals_def Let_def cam_flag_def on_camera_def on_ctrl_def cam_stop_recording_def
      cam_stop_preview_def log_def split: option.splits)

theorem start_preview_raises_NameError_witness:
  "camera (ctrl previewing_world) = Some (idle_camera\<lparr>previewing := True\<rparr>) \<and>
   fst (start_preview 2 None True True previewing_world) = Inl NameError \<and>
   trace (snd (start_preview 2 None True True previewing_world)) = [] \<and>
   fst (reset_gains 2 None True True previewing_world) = Inl NameError"
proof -
  have cam: "camera (ctrl previewing_world) = Some (idle_camera\<lparr>previewing := True\<rparr>)"
    by (simp add: previewing_world_def world_of_def)
  have tr: "trace previewing_world = []"
    by (simp add: previewing_world_def world_of_def)
  from start_preview_raises_NameError [OF cam, of 2 None True True] cam tr
  show ?thesis by simp
qed

text \<open>
  Claim C7.  On a \<^verbatim>\<open>ResetGains\<close> request the reply
  \<^verbatim>\<open>Done (but wait at least 2 seconds)\<close> is the first event of the turn: every camera
  call and pause of the gain reset comes after it, whether or not the reset then raises.
\<close>

theorem reset_gains_reply_precedes_work:
  "split_ws msg = ''ResetGains'' # args \<Longrightarrow>
   fst (handle_request to_float (controller_callbacks t g fa fe) msg w) =
     (if cam_flag previewing w then Inl NameError else Inr True) \<and>
   trace (snd (handle_request to_float (controller_callbacks t g fa fe) msg w)) =
     trace w @ Sent (Text ''Done (but wait at least 2 seconds)'') #
       (if cam_flag recording w then [CamStopRecording] else []) @
       (if cam_flag previewing w then [CamStopPreview, Sleep (1 / 10)] else [])"
  by (auto simp: handle_request_def part_def controller_callbacks_def reset_gains_def
      start_preview_def name_bound_def start_preview_locals_def
      module_globals_def Let_def cam_flag_def on_camera_def on_ctrl_def cam_stop_recording_def
      cam_stop_preview_def log_def send_def split: option.splits)

theorem reset_gains_reply_precedes_work_witness:
  "split_ws ''ResetGains'' = [''ResetGains''] \<and>
   trace (snd (handle_request int_literal_float default_callbacks ''ResetGains''
                 previewing_world)) =
     [Sent (Text ''Done (but wait at least 2 seconds)''), CamStopPreview, Sleep (1 / 10)]"
proof -
  have sp: "split_ws ''ResetGains'' = [''ResetGains'']"
    by code_simp
  have st: "trace previewing_world = [] \<and> cam_flag previewing previewing_world \<and>
      \<not> cam_flag recording previewing_world"
    by (simp add: previewing_world_def world_of_def cam_flag_def idle_camera_def)
  from reset_gains_reply_precedes_work
    [OF sp, of int_literal_float 2 None True True previewing_world] sp st
  show ?thesis by (simp add: default_callbacks_def)
qed

subsection \<open>Starting a recording\<close>

text \<open>
  Claim C2.  In every state in which recording is active, \<^verbatim>\<open>start_recording\<close> returns
  the absent value and changes nothing (no directory is made, no parameter file is
  written), and the reply to a \<^verbatim>\<open>Start\<close> request whose tokens parse is the empty string.
\<close>

theorem start_while_recording_is_ignored:
  "is_recording (ctrl w) \<Longrightarrow>
   start_recording fn ex rn p q w = (Inr None, w) \<and>
   (split_ws msg = ''Start'' # args \<longrightarrow>
    parse_start_args args (0, 1, None) = Inr (ex', rn', p') \<longrightarrow>
    handle_request to_float (controller_callbacks t g fa fe) msg w =
      (Inr True, send (Text []) w))"
  by (auto simp: is_recording_def start_recording_def handle_request_def part_def
      controller_callbacks_def split: option.splits)

theorem start_while_recording_is_ignored_witness:
  "is_recording (ctrl recording_world) \<and>
   start_recording ''rpicamera_video'' 2 3 (Some ''/data/20240101_1200'') 25 recording_world =
     (Inr None, recording_world) \<and>
   handle_request int_literal_float default_callbacks
       ''Start Experiment=2 Recording=3 Path=/data/20240101_1200'' recording_world =
     (Inr True, send (Text []) recording_world)"
proof -
  have rec: "is_recording (ctrl recording_world)"
    by (simp add: is_recording_def recording_world_def world_of_def)
  from start_while_recording_is_ignored
    [OF rec, of "''rpicamera_video''" 2 3 "Some ''/data/20240101_1200''" 25
      "''Start Experiment=2 Recording=3 Path=/data/20240101_1200''"
      "[''Experiment=2'', ''Recording=3'', ''Path=/data/20240101_1200'']"
      2 3 "Some ''/data/20240101_1200''" int_literal_float 2 None True True]
    split_ws_start_example parse_start_args_example rec
  show ?thesis by (simp add: default_callbacks_def)
qed

text \<open>
  Claim C6.  Whenever \<^verbatim>\<open>start_recording\<close> returns a directory, that directory is the
  controller's base path joined with the last component of the path argument followed by
  \<^verbatim>\<open>_experiment_\<close>, the experiment number, \<^verbatim>\<open>_recording_\<close> and the recording number;
  the parameter file has been written, holds the same experiment and recording numbers and
  the directory, and lies in that directory (for a file name that is not absolute).
\<close>

theorem recording_directory_and_parameter_file:
  assumes "start_recording fn ex rn p q w = (Inr (Some rp), w')"
  shows "\<exists>path params.
     p = Some path \<and>
     rp = op_join (data_path (ctrl w))
            (last (split_sep op_sep path) @ ''_experiment_'' @ str_int ex
               @ ''_recording_'' @ str_int rn) \<and>
     map_of (files (fs w')) (op_join rp fn @ ''_params.json'') = Some params \<and>
     map_of params ''experiment'' = Some (JInt ex) \<and>
     map_of params ''recording'' = Some (JInt rn) \<and>
     map_of params ''rec_path'' = Some (JStr rp) \<and>
     (take 1 fn \<noteq> ''/'' \<longrightarrow> op_join rp fn = rp @ ''/'' @ fn)"
proof -
  have j: "take 1 fn \<noteq> ''/'' \<Longrightarrow>
     op_join (op_join a (x @ ''_experiment_'' @ str_int ex @ ''_recording_'' @ str_int rn)) fn =
     op_join a (x @ ''_experiment_'' @ str_int ex @ ''_recording_'' @ str_int rn) @ ''/'' @ fn"
    for a x
    using op_join_under [of "str_int rn" fn a "x @ ''_experiment_'' @ str_int ex @ ''_recording_''"]
      str_int_last [of rn] by simp
  show ?thesis
    using assms j
    by (auto simp: start_recording_def Let_def makedirs_def open_write_def
        cam_start_recording_def log_def on_camera_def on_ctrl_def
        split: option.splits if_splits sum.splits)
qed

theorem recording_directory_and_parameter_file_witness:
  "fst (start_recording ''rpicamera_video'' 2 3 (Some ''/data/20240101_1200'') 25 idle_world) =
     Inr (Some ''/rec/20240101_1200_experiment_2_recording_3'') \<and>
   (\<exists>params.
      map_of (files (fs (snd (start_recording ''rpicamera_video'' 2 3
                                (Some ''/data/20240101_1200'') 25 idle_world))))
        ''/rec/20240101_1200_experiment_2_recording_3/rpicamera_video_params.json'' =
          Some params \<and>
      map_of params ''experiment'' = Some (JInt 2) \<and>
      map_of params ''recording'' = Some (JInt 3))"
proof -
  have run: "start_recording ''rpicamera_video'' 2 3 (Some ''/data/20240101_1200'') 25 idle_world =
      (Inr (Some ''/rec/20240101_1200_experiment_2_recording_3''),
       snd (start_recording ''rpicamera_video'' 2 3 (Some ''/data/20240101_1200'') 25 idle_world))"
    using start_recording_example by (simp add: prod_eq_iff)
  have fn: "take 1 ''rpicamera_video'' \<noteq> ''/''"
    by simp
  from recording_directory_and_parameter_file [OF run] fn start_recording_example
  show ?thesis by auto
qed

text \<open>
  Claim C10.  With the camera present and not recording, a \<^verbatim>\<open>Start\<close> request none of
  whose tokens is \<^verbatim>\<open>Path=...\<close> passes the absent path to \<^verbatim>\<open>start_recording\<close>, which
  raises \<^verbatim>\<open>AttributeError\<close>; the turn ends without a reply and the thread ends with it.
\<close>

theorem start_without_path_kills_server:
  assumes "camera (ctrl w) = Some cam" and "\<not> recording cam"
    and "split_ws msg = ''Start'' # args"
    and "parse_start_args args (0, 1, None) = Inr (ex, rn, p)"
    and "\<forall>a\<in>set args. \<forall>v. split_sep (CHR ''='') a \<noteq> [''Path'', v]"
    and "is_running w"
  shows "p = None \<and>
    start_recording ''rpicamera_video'' ex rn p 25 w = (Inl AttributeError, w) \<and>
    handle_request to_float (controller_callbacks t g fa fe) msg w = (Inl AttributeError, w) \<and>
    serve to_float (controller_callbacks t g fa fe) (msg # msgs) w = (Died AttributeError, w)"
proof -
  have p: "p = None"
    using parse_start_args_no_path [OF assms(4) assms(5)] .
  have sr: "start_recording ''rpicamera_video'' ex rn None 25 w = (Inl AttributeError, w)"
    using assms(1,2) by (simp add: start_recording_def)
  have hr: "handle_request to_float (controller_callbacks t g fa fe) msg w =
      (Inl AttributeError, w)"
    using assms(3,4) sr p by (simp add: handle_request_def part_def controller_callbacks_def)
  show ?thesis using p sr hr assms(6) by simp
qed

theorem start_without_path_kills_server_witness:
  "camera (ctrl idle_world) = Some idle_camera \<and> \<not> recording idle_camera \<and>
   is_running idle_world \<and>
   serve int_literal_float default_callbacks [''Start Experiment=2 Recording=3'', ''Stop'']
      idle_world = (Died AttributeError, idle_world)"
proof -
  have cam: "camera (ctrl idle_world) = Some idle_camera"
    by (simp add: idle_world_def world_of_def)
  have idle: "\<not> recording idle_camera"
    by (simp add: idle_camera_def)
  have on: "is_running idle_world"
    by (simp add: idle_world_def world_of_def)
  have nopath: "\<forall>a\<in>set [''Experiment=2'', ''Recording=3''].
      \<forall>v. split_sep (CHR ''='') a \<noteq> [''Path'', v]"
    by (simp add: split_sep_def)
  from start_without_path_kills_server
    [OF cam idle split_ws_start_no_path_example parse_start_args_no_path_example nopath on,
      of int_literal_float 2 None True True "[''Stop'']"] cam idle on
  show ?thesis by (simp add: default_callbacks_def)
qed

text \<open>
  Claim C8, as the code has it.  When making the recording directory or opening the
  parameter file fails inside \<^verbatim>\<open>Start\<close>, \<^verbatim>\<open>start_recording\<close> raises the error
  (\<^verbatim>\<open>OSError\<close> or \<^verbatim>\<open>IOError\<close>) without starting the recording; nothing catches it, so
  the turn ends without a reply and the thread ends with it.
\<close>

theorem io_error_in_start_is_fatal:
  assumes "camera (ctrl w) = Some cam" and "\<not> recording cam"
    and "split_ws msg = ''Start'' # args"
    and "parse_start_args args (0, 1, None) = Inr (ex, rn, Some path)"
    and "rp = op_join (data_path (ctrl w))
            (last (split_sep op_sep path) @ ''_experiment_'' @ str_int ex
               @ ''_recording_'' @ str_int rn)"
    and "(\<not> op_exists (fs w) rp \<and> rp \<in> set (failing (fs w))) \<or>
         op_join rp ''rpicamera_video'' @ ''_params.json'' \<in> set (failing (fs w))"
    and "is_running w"
  shows "\<exists>e w'. (e = OSError \<or> e = IOError) \<and>
     start_recording ''rpicamera_video'' ex rn (Some path) 25 w = (Inl e, w') \<and>
     handle_request to_float (controller_callbacks t g fa fe) msg w = (Inl e, w') \<and>
     serve to_float (controller_callbacks t g fa fe) (msg # msgs) w = (Died e, w') \<and>
     trace w' = trace w \<and> ctrl w' = ctrl w"
proof -
  let ?r = "start_recording ''rpicamera_video'' ex rn (Some path) 25 w"
  have "(fst ?r = Inl OSError \<or> fst ?r = Inl IOError) \<and>
      trace (snd ?r) = trace w \<and> ctrl (snd ?r) = ctrl w"
    using assms(1,2,6) unfolding assms(5)
    by (auto simp: start_recording_def Let_def makedirs_def open_write_def)
  then obtain e w' where sr: "?r = (Inl e, w')"
    and e: "e = OSError \<or> e = IOError" and same: "trace w' = trace w" "ctrl w' = ctrl w"
    by (cases ?r) auto
  have hr: "handle_request to_float (controller_callbacks t g fa fe) msg w = (Inl e, w')"
    using assms(3,4) sr by (simp add: handle_request_def part_def controller_callbacks_def)
  show ?thesis using sr e same hr assms(7) by auto
qed

theorem io_error_in_start_is_fatal_witness:
  "camera (ctrl readonly_world) = Some idle_camera \<and> \<not> recording idle_camera \<and>
   is_running readonly_world \<and>
   start_recording ''rpicamera_video'' 0 1 (Some ''/data/x'') 25 readonly_world =
     (Inl OSError, readonly_world) \<and>
   serve int_literal_float default_callbacks [''Start Path=/data/x'', ''Stop''] readonly_world =
     (Died OSError, readonly_world)"
proof -
  have cam: "camera (ctrl readonly_world) = Some idle_camera"
    by (simp add: readonly_world_def world_of_def)
  have idle: "\<not> recording idle_camera"
    by (simp add: idle_camera_def)
  have on: "is_running readonly_world"
    by (simp add: readonly_world_def world_of_def)
  have sp: "split_ws ''Start Path=/data/x'' = [''Start'', ''Path=/data/x'']"
    by code_simp
  have pa: "parse_start_args [''Path=/data/x''] (0, 1, None) = Inr (0, 1, Some ''/data/x'')"
    by code_simp
  have rp: "''/rec/x_experiment_0_recording_1'' =
      op_join (data_path (ctrl readonly_world))
        (last (split_sep op_sep ''/data/x'') @ ''_experiment_'' @ str_int 0
           @ ''_recording_'' @ str_int 1)"
    by code_simp
  have fails: "(\<not> op_exists (fs readonly_world) ''/rec/x_experiment_0_recording_1'' \<and>
       ''/rec/x_experiment_0_recording_1'' \<in> set (failing (fs readonly_world))) \<or>
      op_join ''/rec/x_experiment_0_recording_1'' ''rpicamera_video'' @ ''_params.json''
        \<in> set (failing (fs readonly_world))"
    by (simp add: readonly_world_def world_of_def empty_fs_def op_exists_def)
  have sr: "start_recording ''rpicamera_video'' 0 1 (Some ''/data/x'') 25 readonly_world =
      (Inl OSError, readonly_world)"
    by code_simp
  from io_error_in_start_is_fatal
    [OF cam idle sp pa rp fails on, of int_literal_float 2 None True True "[''Stop'']"]
    sr cam idle on
  show ?thesis by (auto simp: default_callbacks_def)
qed

text \<open>
  Claim C8 as it is stated fails: with the recording directory not creatable, the
  \<^verbatim>\<open>Start\<close> request gets no reply, not the empty string, and the next request is never
  served.
\<close>

theorem io_error_in_start_kills_server_counterexample:
  "fst (run int_literal_float default_callbacks [''Start Path=/data/x'', ''Stop'']
          readonly_world) = Died OSError \<and>
   replies (trace (snd (run int_literal_float default_callbacks
                          [''Start Path=/data/x'', ''Stop''] readonly_world))) = []"
  by code_simp

subsection \<open>One reply per request\<close>

text \<open>
  Claim C1, as the code has it.  A turn of the loop that raises no exception sends exactly
  one reply.  An exception is caught nowhere: it ends the thread, so that no later request
  is served, and the request gets no reply (\<^verbatim>\<open>ResetGains\<close> apart, whose reply is sent
  before the work that can raise).
\<close>

theorem one_reply_unless_exception:
  assumes "handle_request to_float (controller_callbacks t g fa fe) msg w = (res, w')"
    and "is_running w"
  shows "case res of
      Inr go_on \<Rightarrow>
        (\<exists>r. replies (trace w') = replies (trace w) @ [r]) \<and>
        serve to_float (controller_callbacks t g fa fe) (msg # msgs) w =
          (if go_on then serve to_float (controller_callbacks t g fa fe) msgs w'
           else (Finished, w'))
    | Inl e \<Rightarrow>
        serve to_float (controller_callbacks t g fa fe) (msg # msgs) w = (Died e, w') \<and>
        replies (trace w') =
          replies (trace w) @
            (if take 1 (split_ws msg) = [''ResetGains'']
             then [Text ''Done (but wait at least 2 seconds)''] else [])"
  using handle_request_replies [OF assms(1)] assms
  by (cases res) simp_all

theorem one_reply_unless_exception_witness:
  "is_running idle_world \<and>
   fst (handle_request int_literal_float default_callbacks ''Resolution 640 480'' idle_world) =
     Inr True \<and>
   (\<exists>r. replies (trace (snd (handle_request int_literal_float default_callbacks
                                ''Resolution 640 480'' idle_world))) = [r]) \<and>
   handle_request int_literal_float default_callbacks ''Resolution 640'' idle_world =
     (Inl IndexError, idle_world) \<and>
   serve int_literal_float default_callbacks [''Resolution 640'', ''Stop''] idle_world =
     (Died IndexError, idle_world)"
proof -
  have on: "is_running idle_world"
    by (simp add: idle_world_def world_of_def)
  have tr: "trace idle_world = []"
    by (simp add: idle_world_def world_of_def)
  have ok: "handle_request int_literal_float (controller_callbacks 2 None True True)
      ''Resolution 640 480'' idle_world =
      (Inr True, snd (handle_request int_literal_float (controller_callbacks 2 None True True)
         ''Resolution 640 480'' idle_world))"
    using handle_resolution_example by (simp add: prod_eq_iff default_callbacks_def)
  have bad: "handle_request int_literal_float (controller_callbacks 2 None True True)
      ''Resolution 640'' idle_world = (Inl IndexError, idle_world)"
    using handle_short_resolution_example by (simp add: default_callbacks_def)
  have one: "\<exists>r. replies (trace (snd (handle_request int_literal_float
      (controller_callbacks 2 None True True) ''Resolution 640 480'' idle_world))) = [r]"
    using one_reply_unless_exception [OF ok on, of "[]"] tr by simp
  have died: "serve int_literal_float (controller_callbacks 2 None True True)
      [''Resolution 640'', ''Stop''] idle_world = (Died IndexError, idle_world)"
    using one_reply_unless_exception [OF bad on, of "[''Stop'']"] by simp
  show ?thesis
    using on one died handle_resolution_example handle_short_resolution_example
    by (simp add: default_callbacks_def)
qed

text \<open>
  Claim C1 as it is stated fails: a \<^verbatim>\<open>Resolution\<close> request with one argument, or with
  an argument that is not a number, gets no reply and ends the loop.
\<close>

theorem malformed_request_kills_server_counterexample:
  "fst (run int_literal_float default_callbacks [''Resolution 640'', ''Stop''] idle_world) =
     Died IndexError \<and>
   replies (trace (snd (run int_literal_float default_callbacks
                          [''Resolution 640'', ''Stop''] idle_world))) = [] \<and>
   fst (run int_literal_float default_callbacks [''Resolution 640 high'', ''Stop''] idle_world) =
     Died ValueError \<and>
   replies (trace (snd (run int_literal_float default_callbacks
                          [''Resolution 640 high'', ''Stop''] idle_world))) = []"
  by code_simp

end
